theory Spec2Isabelle
  imports Complex_Main "HOL-Library.Log_Nat"
begin

section \<open>Double-precision numbers\<close>

text \<open>
  The split fraction of the lever rule is computed and tested in numpy's
  \<^verbatim>\<open>float64\<close>, and the claims about it turn on values next to the ends of a margin
  of width \<open>0.00001\<close>, where rounding decides the branch. The numbers of these lines
  are therefore modelled as IEEE 754 binary64 values: a finite value is a sign and a
  non-negative rational magnitude, so that the two zeros are distinct, and there are
  two infinities and a NaN.
\<close>

datatype double = Finite bool rat | Infinity bool | NaN

definition pow2 :: "int \<Rightarrow> rat" where
  "pow2 k = (if 0 \<le> k then 2 ^ nat k else 1 / 2 ^ nat (- k))"

text \<open>The binary exponent of a positive rational: the \<open>e\<close> with \<open>2^e \<le> m < 2^(e+1)\<close>.\<close>

definition expo :: "rat \<Rightarrow> int" where
  "expo m =
     (let (p, q) = quotient_of m; d = bitlen p - bitlen q
      in if pow2 d \<le> m then d else d - 1)"

text \<open>Rounding to the nearest integer, ties to the even one.\<close>

definition round_half_even :: "rat \<Rightarrow> int" where
  "round_half_even x =
     (let n = \<lfloor>x\<rfloor>; f = x - of_int n
      in if f < 1 / 2 then n else if 1 / 2 < f then n + 1 else if even n then n else n + 1)"

text \<open>
  Rounding a magnitude to the nearest binary64 magnitude, ties to even: 53 significant
  bits for a normal number, multiples of \<open>2^-1074\<close> below \<open>2^-1022\<close>; \<open>None\<close> is
  overflow, when the rounded magnitude reaches \<open>2^1024\<close>.
\<close>

definition round_magnitude :: "rat \<Rightarrow> rat option" where
  "round_magnitude m =
     (if m = 0 then Some 0
      else
        (let e = expo m;
             q = (if e < - 1022 then - 1074 else e - 52);
             r = of_int (round_half_even (m / pow2 q)) * pow2 q
         in if pow2 1024 \<le> r then None else Some r))"

definition round_double :: "bool \<Rightarrow> rat \<Rightarrow> double" where
  "round_double s m = (case round_magnitude m of None \<Rightarrow> Infinity s | Some r \<Rightarrow> Finite s r)"

text \<open>The value of a decimal literal of the source, such as \<^verbatim>\<open>1.00001\<close>.\<close>

definition double_of :: "rat \<Rightarrow> double" where
  "double_of r = round_double (r < 0) \<bar>r\<bar>"

definition valof :: "bool \<Rightarrow> rat \<Rightarrow> rat" where
  "valof s m = (if s then - m else m)"

text \<open>
  Subtraction. An exact difference of zero is \<open>+0\<close>, except for \<open>(-0) - (+0)\<close>; a
  nonzero difference is rounded.
\<close>

fun dsub :: "double \<Rightarrow> double \<Rightarrow> double" where
  "dsub NaN _ = NaN"
| "dsub _ NaN = NaN"
| "dsub (Infinity s) (Infinity t) = (if s = t then NaN else Infinity s)"
| "dsub (Infinity s) (Finite _ _) = Infinity s"
| "dsub (Finite _ _) (Infinity t) = Infinity (\<not> t)"
| "dsub (Finite s a) (Finite t b) =
     (let r = valof s a - valof t b
      in if r = 0 then Finite (s \<and> \<not> t) 0 else round_double (r < 0) \<bar>r\<bar>)"

text \<open>
  Division as numpy does it on \<^verbatim>\<open>float64\<close>: a zero divisor gives a NaN for a
  zero dividend and an infinity otherwise, with a warning and no exception.
\<close>

fun ddiv :: "double \<Rightarrow> double \<Rightarrow> double" where
  "ddiv NaN _ = NaN"
| "ddiv _ NaN = NaN"
| "ddiv (Infinity s) (Infinity t) = NaN"
| "ddiv (Infinity s) (Finite t _) = Infinity (s \<noteq> t)"
| "ddiv (Finite s _) (Infinity t) = Finite (s \<noteq> t) 0"
| "ddiv (Finite s a) (Finite t b) =
     (if b = 0 then (if a = 0 then NaN else Infinity (s \<noteq> t))
      else round_double (s \<noteq> t) (a / b))"

text \<open>The comparison \<^verbatim>\<open><\<close>: false as soon as one side is a NaN.\<close>

fun dless :: "double \<Rightarrow> double \<Rightarrow> bool" where
  "dless NaN _ = False"
| "dless _ NaN = False"
| "dless (Infinity s) (Infinity t) = (s \<and> \<not> t)"
| "dless (Infinity s) (Finite _ _) = s"
| "dless (Finite _ _) (Infinity t) = (\<not> t)"
| "dless (Finite s a) (Finite t b) = (valof s a < valof t b)"

section \<open>Vapor-liquid equilibrium with a composition specification\<close>

text \<open>
  The tutorial notebook records, in the traceback of its infeasible call, the source
  lines of \<^verbatim>\<open>thermosteam/equilibrium/vle.py\<close> that handle a binary composition
  specification:
  \<^verbatim>\<open>
  __call__ (lines 389-393):
                          thermal_condition.P = P
              elif x_spec:
                  self.set_Px(P, np.asarray(x))
              else: # y_spec
                  self.set_Py(P, np.asarray(y))
  set_Px (lines 671-673):
          assert self._N == 2, 'number of species in equilibrium must be 2 to specify x'
          self._thermal_condition.T, y = self._bubble_point.solve_Ty(x, P)
          self._lever_rule(x, y)
  _lever_rule (lines 653-657):
          split_frac = (self._z[0]-x[0])/(y[0]-x[0])
          if not -0.00001 < split_frac < 1.00001:
              raise InfeasibleRegion('phase composition')
          if split_frac > 1:
              split_frac = 1
  \<close>
  Compositions are arrays of doubles. Temperature and pressure are only passed on and
  stored by these lines, never computed with, and are kept as real numbers.
\<close>

datatype error = InfeasibleRegion | AssertionError | IndexError | SolverDidNotConverge

record thermal_condition =
  T :: real
  P :: real

text \<open>
  The fields of the solver object that the recorded lines read or write:
  \<^verbatim>\<open>self._thermal_condition\<close>, \<^verbatim>\<open>self._N\<close> (number of species in equilibrium)
  and \<^verbatim>\<open>self._z\<close> (overall molar composition of those species).
\<close>

record vle =
  thermal_condition :: thermal_condition
  N :: nat
  z :: "double list"

text \<open>
  \<^verbatim>\<open>_lever_rule\<close>, lines 653-657, in double arithmetic: two subtractions and a
  division, each rounded, then the chained comparison against the doubles of the
  literals \<^verbatim>\<open>-0.00001\<close> and \<^verbatim>\<open>1.00001\<close>. An infinite or NaN quotient fails the
  range test like any other value outside it. Indexing an empty array raises
  \<^verbatim>\<open>IndexError\<close>. The integer 1 that replaces a split above 1 is the double 1.

  Modelled from the spec: the lines after 657 are not recorded. The lower clamp
  (\<open>split_frac < 0\<close> becomes 0) follows section 4.2, "values within that margin clamp to
  the corresponding boundary rather than failing". The function is modelled as returning
  the split fraction it arrives at.
\<close>

definition lever_rule :: "double list \<Rightarrow> double list \<Rightarrow> double list \<Rightarrow> error + double" where
  "lever_rule zs x y =
     (case (zs, x, y) of
        (z0 # _, x0 # _, y0 # _) \<Rightarrow>
          (let split_frac = ddiv (dsub z0 x0) (dsub y0 x0) in
           if \<not> (dless (double_of (- 0.00001)) split_frac
                 \<and> dless split_frac (double_of 1.00001)) then Inl InfeasibleRegion
           else if dless (double_of 1) split_frac then Inr (double_of 1)
           else if dless split_frac (double_of 0) then Inr (double_of 0)
           else Inr split_frac)
      | _ \<Rightarrow> Inl IndexError)"

text \<open>
  The bubble-point and dew-point solvers are not among the sources; \<^verbatim>\<open>set_Px\<close> takes
  \<^verbatim>\<open>self._bubble_point.solve_Ty\<close> as a parameter that returns the temperature and
  the vapor composition, or fails.
\<close>

type_synonym point_solver = "double list \<Rightarrow> real \<Rightarrow> error + (real \<times> double list)"

text \<open>
  \<^verbatim>\<open>set_Px\<close>, lines 671-673 (what the method does before line 671 is not
  recorded). The call mutates the solver and may then raise, so the
  result is the solver state after the call together with the outcome: the error
  raised, or the split fraction. The only assignment to the thermal condition is to
  its \<open>T\<close>; it has taken place when \<^verbatim>\<open>_lever_rule\<close> raises.
\<close>

definition set_Px :: "point_solver \<Rightarrow> real \<Rightarrow> double list \<Rightarrow> vle \<Rightarrow> vle \<times> (error + double)" where
  "set_Px solve_Ty P_spec x s =
     (if N s \<noteq> 2 then (s, Inl AssertionError)
      else
        (case solve_Ty x P_spec of
           Inl e \<Rightarrow> (s, Inl e)
         | Inr (T_bubble, y) \<Rightarrow>
             (let s' = s\<lparr>thermal_condition := (thermal_condition s)\<lparr>T := T_bubble\<rparr>\<rparr>
              in (s', lever_rule (z s') x y))))"

text \<open>
  Modelled from the spec: \<^verbatim>\<open>set_Py\<close> is called at line 393 and its body is not
  recorded. Section 4.2: "given one phase's composition fixed, solve bubble/dew directly
  for T and the other phase's composition, then apply a lever rule"; for a vapor
  composition the solver is the dew point's, which returns the temperature and the liquid
  composition.
\<close>

definition set_Py :: "point_solver \<Rightarrow> real \<Rightarrow> double list \<Rightarrow> vle \<Rightarrow> vle \<times> (error + double)" where
  "set_Py solve_Tx P_spec y s =
     (if N s \<noteq> 2 then (s, Inl AssertionError)
      else
        (case solve_Tx y P_spec of
           Inl e \<Rightarrow> (s, Inl e)
         | Inr (T_dew, x) \<Rightarrow>
             (let s' = s\<lparr>thermal_condition := (thermal_condition s)\<lparr>T := T_dew\<rparr>\<rparr>
              in (s', lever_rule (z s') x y))))"

text \<open>
  \<^verbatim>\<open>__call__\<close>, lines 390-393: with a pressure and a composition given, the call
  is \<^verbatim>\<open>set_Px\<close> for a liquid composition and \<^verbatim>\<open>set_Py\<close> for a vapor composition.
\<close>

datatype composition_spec = x_spec "double list" | y_spec "double list"

definition vle_call :: "point_solver \<Rightarrow> point_solver \<Rightarrow> real \<Rightarrow> composition_spec \<Rightarrow> vle
    \<Rightarrow> vle \<times> (error + double)" where
  "vle_call solve_Ty solve_Tx P_spec spec s =
     (case spec of
        x_spec x \<Rightarrow> set_Px solve_Ty P_spec x s
      | y_spec y \<Rightarrow> set_Py solve_Tx P_spec y s)"

subsection \<open>The calls recorded in the notebook\<close>

text \<open>
  The solver of the notebook after \<^verbatim>\<open>vle(V=0.5, T=360)\<close>: the material indexer holds
  one mole of each of the two chemicals, and the printed thermal condition is
  \<^verbatim>\<open>ThermalCondition(T=360.00, P=127822)\<close>.
\<close>

definition notebook_vle :: vle where
  "notebook_vle =
     \<lparr>thermal_condition = \<lparr>T = 360, P = 127822\<rparr>, N = 2, z = [double_of 0.5, double_of 0.5]\<rparr>"

text \<open>
  A stand-in for the bubble-point solver at the next call,
  \<^verbatim>\<open>vle(x=np.array([0.8, 0.2]), P=101325)\<close>: it answers with the temperature the
  notebook prints after that call (356.31 K) and with the vapor composition of the
  printed vapor flows (0.8434 and 0.9609 mol), whatever it is asked.
\<close>

definition notebook_bubble_point :: point_solver where
  "notebook_bubble_point x P_spec =
     Inr (356.31, [double_of (8434 / 18043), double_of (9609 / 18043)])"

text \<open>
  A stand-in for the dew-point solver that answers with the same temperature and the
  liquid composition of that call, \<open>[0.8, 0.2]\<close>.
\<close>

definition notebook_dew_point :: point_solver where
  "notebook_dew_point y P_spec = Inr (356.31, [double_of 0.8, double_of 0.2])"

text \<open>
  A point solver that answers with the composition it is given, whatever it is asked,
  and one that fails.
\<close>

definition answering :: "double list \<Rightarrow> point_solver" where
  "answering c x P_spec = Inr (350, c)"

definition failing_point :: point_solver where
  "failing_point x P_spec = Inl SolverDidNotConverge"

section \<open>Recycle convergence engine\<close>

text \<open>
  The engine behind \<^verbatim>\<open>System.simulate\<close> is not among the sources: the notebook
  shows only what it prints after a converged run ("Highest convergence error among
  components in recycle stream S1-0 after 4 loops", with a flow-rate and a temperature
  error). This section follows section 4.5 of the spec. Unit operations are outside the
  engine, so one pass over the flowsheet is a parameter: a function from the tear
  streams at the start of the pass to the tear streams it computes, taken to return.
\<close>

text \<open>
  Modelled from the spec: the state of a tear stream that the convergence test reads,
  the molar flow of each component and the temperature (sections 3 and 4.5).
\<close>

record tear_stream =
  flow :: "real list"
  temperature :: real

text \<open>
  Modelled from the spec: the "configured tolerances" of the convergence test, one for
  the relative flow-rate difference and one for the absolute temperature difference.
\<close>

record tolerances =
  flow_tolerance :: real
  temperature_tolerance :: real

type_synonym pass = "tear_stream list \<Rightarrow> tear_stream list"

text \<open>
  The spec does not say what a flow-rate difference is taken relative to; the measure
  of the relative difference between an old and a new flow is a parameter.
\<close>

type_synonym relative_difference = "real \<Rightarrow> real \<Rightarrow> real"

text \<open>
  Modelled from the spec: "per-component relative flow-rate difference" of one tear
  stream between the start of a pass and its end, each error with the index of its
  component.
\<close>

definition component_errors :: "relative_difference \<Rightarrow> tear_stream \<Rightarrow> tear_stream
    \<Rightarrow> (real \<times> nat) list" where
  "component_errors rd old new =
     map (\<lambda>(i, f_old, f_new). (rd f_old f_new, i)) (enumerate 0 (zip (flow old) (flow new)))"

text \<open>
  Modelled from the spec: the flow-rate errors "across all tear streams and all
  components".
\<close>

definition flow_errors :: "relative_difference \<Rightarrow> tear_stream list \<Rightarrow> tear_stream list
    \<Rightarrow> (real \<times> nat) list" where
  "flow_errors rd old new =
     concat (map (\<lambda>(s_old, s_new). component_errors rd s_old s_new) (zip old new))"

text \<open>
  Modelled from the spec: the "absolute temperature difference" of every tear stream,
  each error with the index of its stream.
\<close>

definition temperature_errors :: "tear_stream list \<Rightarrow> tear_stream list \<Rightarrow> (real \<times> nat) list" where
  "temperature_errors old new =
     map (\<lambda>(i, s_old, s_new). (\<bar>temperature s_new - temperature s_old\<bar>, i))
       (enumerate 0 (zip old new))"

text \<open>
  Modelled from the spec: "the single largest relative/absolute error", with the index
  it belongs to; there is none when there is no error to report.
\<close>

fun largest :: "(real \<times> nat) list \<Rightarrow> (real \<times> nat) option" where
  "largest [] = None"
| "largest (e # es) =
     (case largest es of
        None \<Rightarrow> Some e
      | Some m \<Rightarrow> if fst m \<le> fst e then Some e else Some m)"

text \<open>
  Modelled from the spec: the convergence test, "converged (all errors below
  tolerance)".
\<close>

definition within_tolerance :: "relative_difference \<Rightarrow> tolerances \<Rightarrow> tear_stream list
    \<Rightarrow> tear_stream list \<Rightarrow> bool" where
  "within_tolerance rd tol old new =
     (list_all (\<lambda>e. fst e < flow_tolerance tol) (flow_errors rd old new)
      \<and> list_all (\<lambda>e. fst e < temperature_tolerance tol) (temperature_errors old new))"

text \<open>
  Modelled from the spec: how the iteration ends. \<open>Converged\<close> carries the number of
  passes run and the tear streams at the start and at the end of the last pass;
  \<open>Exceeded\<close> carries the number of passes and the tear streams around the last pass,
  if there was one.
\<close>

datatype loop_end =
    Converged nat "tear_stream list" "tear_stream list"
  | Exceeded nat "(tear_stream list \<times> tear_stream list) option"

text \<open>
  Modelled from the spec: the iteration of section 4.5. Each pass runs the flowsheet on
  the current tear streams and compares the new tear streams with those at the start of
  the pass; when the test holds the loop ends in success; otherwise the new value
  "directly replaces the old one" and the next pass starts, until the budget of passes
  is used up. The arguments are the remaining budget, the passes run so far, the tear
  streams around the previous pass and the current tear streams.
\<close>

fun iterate :: "pass \<Rightarrow> relative_difference \<Rightarrow> tolerances \<Rightarrow> nat \<Rightarrow> nat
    \<Rightarrow> (tear_stream list \<times> tear_stream list) option \<Rightarrow> tear_stream list \<Rightarrow> loop_end" where
  "iterate run rd tol 0 n prev cur = Exceeded n prev"
| "iterate run rd tol (Suc budget) n prev cur =
     (let new = run cur in
      if within_tolerance rd tol cur new then Converged (Suc n) cur new
      else iterate run rd tol budget (Suc n) (Some (cur, new)) new)"

text \<open>
  Modelled from the spec: what a converged run reports, the "loop count" and the
  largest flow-rate and temperature error.
\<close>

record report =
  loops :: nat
  flow_error :: "(real \<times> nat) option"
  temperature_error :: "(real \<times> nat) option"

text \<open>
  Modelled from the spec: the "full diagnostic (loop identity, largest residual,
  offending component)" of a run that did not converge (section 7); the component is the
  index paired with the flow residual.
\<close>

record diagnostic =
  loop :: string
  passes :: nat
  flow_residual :: "(real \<times> nat) option"
  temperature_residual :: "(real \<times> nat) option"

text \<open>
  Modelled from the spec: a simulation run from a guess of the tear streams, with a
  maximum pass count. Success returns the converged tear streams and the report; failure
  returns the diagnostic in place of a result.
\<close>

definition simulate :: "string \<Rightarrow> pass \<Rightarrow> relative_difference \<Rightarrow> tolerances \<Rightarrow> nat
    \<Rightarrow> tear_stream list \<Rightarrow> diagnostic + (tear_stream list \<times> report)" where
  "simulate loop_id run rd tol maxiter guess =
     (case iterate run rd tol maxiter 0 None guess of
        Converged n old new \<Rightarrow>
          Inr (new, \<lparr>loops = n, flow_error = largest (flow_errors rd old new),
                      temperature_error = largest (temperature_errors old new)\<rparr>)
      | Exceeded n prev \<Rightarrow>
          Inl \<lparr>loop = loop_id, passes = n,
               flow_residual =
                 (case prev of None \<Rightarrow> None
                  | Some (old, new) \<Rightarrow> largest (flow_errors rd old new)),
               temperature_residual =
                 (case prev of None \<Rightarrow> None
                  | Some (old, new) \<Rightarrow> largest (temperature_errors old new))\<rparr>)"

text \<open>The convergence test at pass \<open>k + 1\<close> of a run that starts from \<open>guess\<close>.\<close>

definition pass_within :: "pass \<Rightarrow> relative_difference \<Rightarrow> tolerances \<Rightarrow> tear_stream list
    \<Rightarrow> nat \<Rightarrow> bool" where
  "pass_within run rd tol guess k =
     within_tolerance rd tol ((run ^^ k) guess) ((run ^^ Suc k) guess)"

subsection \<open>An example run\<close>

text \<open>
  One tear stream of two components. A pass moves each flow a tenth of the way from
  its feed, so the flows tend to 10 and 5, and sets the temperature to 350 K. The
  relative difference is taken against the larger of the two magnitudes.
\<close>

definition symmetric_relative_difference :: relative_difference where
  "symmetric_relative_difference a b = (if a = b then 0 else \<bar>b - a\<bar> / max \<bar>a\<bar> \<bar>b\<bar>)"

definition example_pass :: pass where
  "example_pass ts =
     map (\<lambda>s. \<lparr>flow = map (\<lambda>(f, feed). (f + feed) / 10) (zip (flow s) [90, 45]),
               temperature = 350\<rparr>) ts"

definition example_tolerances :: tolerances where
  "example_tolerances = \<lparr>flow_tolerance = 0.01, temperature_tolerance = 0.1\<rparr>"

definition example_guess :: "tear_stream list" where
  "example_guess = [\<lparr>flow = [0, 5], temperature = 298.15\<rparr>]"

section \<open>Properties of the double arithmetic\<close>

lemma pow2_powi: "pow2 k = 2 powi k"
  by (simp add: pow2_def power_int_def field_simps)

lemma bitlen_rat_bounds:
  assumes "0 < p"
  shows "pow2 (bitlen p - 1) \<le> of_int p" and "of_int p < pow2 (bitlen p)"
proof -
  from bitlen_bounds[OF assms]
  have l: "2 ^ nat (bitlen p - 1) \<le> p" and u: "p < 2 ^ nat (bitlen p)"
    by auto
  have b1: "1 \<le> bitlen p" using assms by (simp add: bitlen_alt_def)
  from l have "(of_int (2 ^ nat (bitlen p - 1)) :: rat) \<le> of_int p"
    by (rule of_int_le_iff[THEN iffD2])
  then show "pow2 (bitlen p - 1) \<le> of_int p" using b1 by (simp add: pow2_def)
  from u have "(of_int p :: rat) < of_int (2 ^ nat (bitlen p))"
    by (rule of_int_less_iff[THEN iffD2])
  then show "of_int p < pow2 (bitlen p)" using b1 by (simp add: pow2_def)
qed

text \<open>\<open>expo\<close> is the binary exponent: it brackets its argument, and it is the only one.\<close>

lemma expo_bounds:
  assumes "0 < m"
  shows "pow2 (expo m) \<le> m \<and> m < pow2 (expo m + 1)"
proof -
  obtain p q where pq: "quotient_of m = (p, q)" by (cases "quotient_of m")
  then have q: "0 < q" and m: "m = of_int p / of_int q"
    using quotient_of_denom_pos quotient_of_div by auto
  with assms have p: "0 < p" by (simp add: zero_less_divide_iff)
  let ?a = "bitlen p" and ?b = "bitlen q"
  note P = bitlen_rat_bounds[OF p] and Q = bitlen_rat_bounds[OF q]
  have qpos: "0 < (of_int q :: rat)" using q by simp
  have "of_int p / of_int q < (2 :: rat) powi ?a / 2 powi (?b - 1)"
    using P Q p qpos by (intro frac_less) (simp_all add: pow2_powi)
  also have "\<dots> = 2 powi (?a - (?b - 1))"
    by (simp add: power_int_diff)
  finally have up: "m < pow2 (?a - ?b + 1)"
    by (simp add: m pow2_powi algebra_simps)
  have "(2 :: rat) powi (?a - 1) / 2 powi ?b \<le> of_int p / of_int q"
    using P Q p qpos by (intro frac_le) (simp_all add: pow2_powi)
  moreover have "(2 :: rat) powi (?a - 1) / 2 powi ?b = 2 powi (?a - 1 - ?b)"
    by (simp add: power_int_diff)
  ultimately have lo: "pow2 (?a - ?b - 1) \<le> m"
    by (simp add: m pow2_powi algebra_simps)
  show ?thesis
    using up lo pq by (auto simp add: expo_def Let_def)
qed

lemma expo_unique:
  assumes "0 < m" "pow2 e \<le> m" "m < pow2 (e + 1)"
  shows "expo m = e"
proof -
  from expo_bounds[OF assms(1)] have b: "pow2 (expo m) \<le> m" "m < pow2 (expo m + 1)" by auto
  have "pow2 e < pow2 (expo m + 1)" using assms(2) b(2) by simp
  then have 1: "e < expo m + 1"
    using power_int_increasing[of "expo m + 1" e "2 :: rat"]
    by (fastforce simp add: pow2_powi)
  have "pow2 (expo m) < pow2 (e + 1)" using assms(3) b(1) by simp
  then have 2: "expo m < e + 1"
    using power_int_increasing[of "e + 1" "expo m" "2 :: rat"]
    by (fastforce simp add: pow2_powi)
  from 1 2 show ?thesis by simp
qed

text \<open>
  Rounding a normal number, given its exponent: the form in which the roundings of the
  concrete calls below are evaluated.
\<close>

lemma round_double_normal:
  assumes "0 < m" "pow2 e \<le> m" "m < pow2 (e + 1)" "- 1022 \<le> e"
    and "of_int (round_half_even (m / pow2 (e - 52))) * pow2 (e - 52) < pow2 1024"
  shows "round_double s m = Finite s (of_int (round_half_even (m / pow2 (e - 52))) * pow2 (e - 52))"
  using assms expo_unique[OF assms(1,2,3)]
  by (simp add: round_double_def round_magnitude_def Let_def)

lemma floor_rat_numeral:
  "\<lfloor>(numeral a :: rat) / numeral b\<rfloor> = numeral a div numeral b"
  using floor_divide_of_int_eq[where ?'a = rat, of "numeral a" "numeral b"] by simp

lemma round_double_0: "round_double s 0 = Finite s 0"
  by (simp add: round_double_def round_magnitude_def)

lemma double_of_0: "double_of 0 = Finite False 0"
  by (simp add: double_of_def round_double_0)

lemmas double_eval = double_of_def valof_def round_half_even_def pow2_def Let_def
  floor_rat_numeral round_double_0

text \<open>The doubles of the literals of the range test, and of the compositions used below.\<close>

lemma double_of_1: "double_of 1 = Finite False 1"
  by (simp add: double_eval round_double_normal[where e = 0])

lemma double_of_upper: "double_of 1.00001 = Finite False (2251822331683385 / 2251799813685248)"
  by (simp add: double_eval round_double_normal[where e = 0])

lemma double_of_lower:
  "double_of (- 0.00001) = Finite True (5902958103587057 / 590295810358705651712)"
  by (simp add: double_eval round_double_normal[where e = "- 17"])

lemma double_of_half: "double_of 0.5 = Finite False (1 / 2)"
  by (simp add: double_eval round_double_normal[where e = "- 1"])


lemma lever_rule_cases:
  "lever_rule (z0 # zs) (x0 # xs) (y0 # ys) =
     (case ddiv (dsub z0 x0) (dsub y0 x0) of
        NaN \<Rightarrow> Inl InfeasibleRegion
      | Infinity sg \<Rightarrow> Inl InfeasibleRegion
      | Finite sg m \<Rightarrow>
          if valof sg m \<le> - (5902958103587057 / 590295810358705651712)
             \<or> 2251822331683385 / 2251799813685248 \<le> valof sg m then Inl InfeasibleRegion
          else if 1 < valof sg m then Inr (Finite False 1)
          else if valof sg m < 0 then Inr (Finite False 0)
          else Inr (Finite sg m))"
  unfolding lever_rule_def double_of_0 double_of_1 double_of_upper double_of_lower
  by (cases "ddiv (dsub z0 x0) (dsub y0 x0)") (auto simp add: Let_def valof_def)

lemma set_Px_pressure:
  "P (thermal_condition (fst (set_Px solve_Ty P_spec x s))) = P (thermal_condition s)"
  by (simp add: set_Px_def Let_def split: sum.splits prod.splits)

lemma set_Py_pressure:
  "P (thermal_condition (fst (set_Py solve_Tx P_spec y s))) = P (thermal_condition s)"
  by (simp add: set_Py_def Let_def split: sum.splits prod.splits)

subsection \<open>The computed split of concrete calls\<close>

text \<open>
  The recorded call: \<open>z0 = 0.5\<close>, \<open>x0 = 0.8\<close> and the vapor fraction of the printed
  flows. The computed split is about 0.90209.
\<close>

lemma split_recorded:
  "ddiv (dsub (double_of 0.5) (double_of 0.8)) (dsub (double_of (8434 / 18043)) (double_of 0.8))
     = Finite False (8125303120789867 / 9007199254740992)"
  by (simp add: double_eval round_double_normal[where e = "- 1"]
      round_double_normal[where e = "- 2"])

text \<open>The recorded infeasible call, \<open>x0 = 0.2\<close>: the computed split is about 1.12175.\<close>

lemma split_infeasible:
  "ddiv (dsub (double_of 0.5) (double_of 0.2)) (dsub (double_of (8434 / 18043)) (double_of 0.2))
     = Finite False (5051919928502043 / 4503599627370496)"
  by (simp add: double_eval round_double_normal[where e = "- 1"]
      round_double_normal[where e = "- 2"] round_double_normal[where e = "- 3"]
      round_double_normal[where e = 0])

text \<open>A split inside the margin above 1, about 1.000008.\<close>

lemma split_above_one:
  "ddiv (dsub (double_of 0.499998) (double_of 0.75)) (dsub (double_of 0.5) (double_of 0.75))
     = Finite False (4503635656167515 / 4503599627370496)"
  by (simp add: double_eval round_double_normal[where e = "- 1"]
      round_double_normal[where e = "- 2"] round_double_normal[where e = 0])

text \<open>A split inside the margin below 0, about -0.000008.\<close>

lemma split_below_zero:
  "ddiv (dsub (double_of 0.249998) (double_of 0.25)) (dsub (double_of 0.5) (double_of 0.25))
     = Finite True (36028797019 / 4503599627370496)"
  by (simp add: double_eval round_double_normal[where e = "- 1"]
      round_double_normal[where e = "- 2"] round_double_normal[where e = "- 3"]
      round_double_normal[where e = "- 17"] round_double_normal[where e = "- 19"])

text \<open>
  Operands whose exact quotient is \<open>1.00001\<close>: the two differences are exact, and the
  quotient rounds to the double of the literal \<^verbatim>\<open>1.00001\<close>.
\<close>

lemma split_at_end:
  "ddiv (dsub (Finite False (362145 / 1048576)) (Finite False (1 / 4)))
        (dsub (Finite False (11317 / 32768)) (Finite False (1 / 4)))
     = Finite False (2251822331683385 / 2251799813685248)"
  by (simp add: double_eval round_double_normal[where e = "- 4"]
      round_double_normal[where e = 0])

text \<open>
  Operands next to the end of the margin. With \<open>z0\<close> the double of \<^verbatim>\<open>0.62500625\<close>,
  \<open>x0 = 0\<close> and \<open>y0 = 0.625\<close> the exact quotient of the operands is below \<open>1.00001\<close>
  and the computed split is the double of the literal. With \<open>z0\<close> the double
  \<^verbatim>\<open>0.40000300000000005\<close>, \<open>x0\<close> and \<open>y0\<close> the doubles of \<^verbatim>\<open>0.1\<close> and
  \<^verbatim>\<open>0.4\<close>, the exact quotient of the operands is above \<open>1.00001\<close> and the computed
  split is the double just below that of the literal.
\<close>

lemma operands_rounded_up:
  "double_of 0.62500625 = Finite False (2814777914604231 / 4503599627370496)
   \<and> double_of 0.625 = Finite False (5 / 8)
   \<and> (2814777914604231 / 4503599627370496 - 0) / (5 / 8 - 0) < (1.00001 :: rat)"
  by (simp add: double_eval round_double_normal[where e = "- 1"])

lemma split_rounded_up:
  "ddiv (dsub (double_of 0.62500625) (double_of 0)) (dsub (double_of 0.625) (double_of 0))
     = Finite False (2251822331683385 / 2251799813685248)"
  by (simp add: double_eval round_double_normal[where e = "- 1"]
      round_double_normal[where e = 0])

lemma operands_rounded_down:
  "double_of 0.1 = Finite False (3602879701896397 / 36028797018963968)
   \<and> double_of 0.4 = Finite False (3602879701896397 / 9007199254740992)
   \<and> (1.00001 :: rat)
       < (7205813446988323 / 18014398509481984 - 3602879701896397 / 36028797018963968)
         / (3602879701896397 / 9007199254740992 - 3602879701896397 / 36028797018963968)"
  by (simp add: double_eval round_double_normal[where e = "- 2"]
      round_double_normal[where e = "- 4"])

lemma split_rounded_down:
  "ddiv (dsub (Finite False (7205813446988323 / 18014398509481984)) (double_of 0.1))
        (dsub (double_of 0.4) (double_of 0.1))
     = Finite False (4503644663366769 / 4503599627370496)"
  by (simp add: double_eval round_double_normal[where e = "- 2"]
      round_double_normal[where e = "- 4"] round_double_normal[where e = 0])

section \<open>Feasibility of a composition specification\<close>

text \<open>
  Claim C2, as the code has it. For a flash call with a pressure and a binary
  composition (liquid \<open>x\<close> or vapor \<open>y\<close>), once the point solver has returned the other
  phase's composition, the outcome is decided by the split fraction as the code computes
  it, in double precision, from \<open>(z0 - x0) / (y0 - x0)\<close>. The call fails with
  \<^verbatim>\<open>InfeasibleRegion\<close> when the computed split is a NaN or an infinity (as it is for
  \<open>y0 = x0\<close>), or is at most the double of \<^verbatim>\<open>-0.00001\<close>, or is at least the double
  of \<^verbatim>\<open>1.00001\<close>; no split is returned then. A computed split strictly between the
  double of \<^verbatim>\<open>-0.00001\<close> and 0 is clamped to 0, one strictly between 1 and the double
  of \<^verbatim>\<open>1.00001\<close> is clamped to 1, and one in \<open>[0, 1]\<close> is returned as it is. The two
  ends of the margin themselves fail: the range test of the code is strict. The two
  long fractions are the values of the doubles of the two literals.
\<close>

theorem composition_call_split:
  assumes "N s = 2" and "z s = z0 # zs"
    and "(spec = x_spec (x0 # xs) \<and> solve_Ty (x0 # xs) P_spec = Inr (T', y0 # ys))
       \<or> (spec = y_spec (y0 # ys) \<and> solve_Tx (y0 # ys) P_spec = Inr (T', x0 # xs))"
    and "split_frac = ddiv (dsub z0 x0) (dsub y0 x0)"
    and "outcome = snd (vle_call solve_Ty solve_Tx P_spec spec s)"
  shows "case split_frac of
       NaN \<Rightarrow> outcome = Inl InfeasibleRegion
     | Infinity sg \<Rightarrow> outcome = Inl InfeasibleRegion
     | Finite sg m \<Rightarrow>
         (valof sg m \<le> - (5902958103587057 / 590295810358705651712) \<or> 2251822331683385 / 2251799813685248 \<le> valof sg m
            \<longrightarrow> outcome = Inl InfeasibleRegion)
       \<and> (- (5902958103587057 / 590295810358705651712) < valof sg m \<and> valof sg m < 0
            \<longrightarrow> outcome = Inr (Finite False 0))
       \<and> (1 < valof sg m \<and> valof sg m < 2251822331683385 / 2251799813685248
            \<longrightarrow> outcome = Inr (Finite False 1))
       \<and> (0 \<le> valof sg m \<and> valof sg m \<le> 1 \<longrightarrow> outcome = Inr split_frac)"
proof -
  have "outcome = lever_rule (z0 # zs) (x0 # xs) (y0 # ys)"
    using assms(1,2,3,5)
    by (auto simp add: vle_call_def set_Px_def set_Py_def Let_def)
  then show ?thesis
    unfolding lever_rule_cases assms(4)
    by (cases "ddiv (dsub z0 x0) (dsub y0 x0)") auto
qed

text \<open>
  The theorem at five calls on the notebook's solver: the recorded call with
  \<open>x = [0.8, 0.2]\<close>, whose computed split lies in \<open>[0, 1]\<close>; the recorded infeasible call
  with \<open>x = [0.2, 0.8]\<close>, answered by the same stand-in, whose split is above the margin;
  a call whose split is inside the margin above 1; a call whose split is inside the
  margin below 0; and a call that gives the vapor composition \<open>y\<close> of the first call
  instead of its \<open>x\<close>.
\<close>

theorem composition_call_split_witness:
  "N notebook_vle = 2 \<and> z notebook_vle = [double_of 0.5, double_of 0.5]
   \<and> notebook_bubble_point [double_of 0.8, double_of 0.2] 101325
        = Inr (356.31, [double_of (8434 / 18043), double_of (9609 / 18043)])
   \<and> snd (vle_call notebook_bubble_point failing_point 101325
        (x_spec [double_of 0.8, double_of 0.2]) notebook_vle)
        = Inr (Finite False (8125303120789867 / 9007199254740992))
   \<and> snd (vle_call notebook_bubble_point failing_point 101325
        (x_spec [double_of 0.2, double_of 0.8]) notebook_vle)
        = Inl InfeasibleRegion
   \<and> snd (vle_call (answering [double_of 0.5, double_of 0.5]) failing_point 101325
        (x_spec [double_of 0.75, double_of 0.25])
        (notebook_vle\<lparr>z := [double_of 0.499998, double_of 0.500002]\<rparr>))
        = Inr (Finite False 1)
   \<and> snd (vle_call (answering [double_of 0.5, double_of 0.5]) failing_point 101325
        (x_spec [double_of 0.25, double_of 0.75])
        (notebook_vle\<lparr>z := [double_of 0.249998, double_of 0.750002]\<rparr>))
        = Inr (Finite False 0)
   \<and> snd (vle_call failing_point notebook_dew_point 101325
        (y_spec [double_of (8434 / 18043), double_of (9609 / 18043)]) notebook_vle)
        = Inr (Finite False (8125303120789867 / 9007199254740992))"
proof -
  have n: "N notebook_vle = 2" and zs: "z notebook_vle = double_of 0.5 # [double_of 0.5]"
    by (simp_all add: notebook_vle_def)
  have b1: "notebook_bubble_point [double_of 0.8, double_of 0.2] 101325
      = Inr (356.31, [double_of (8434 / 18043), double_of (9609 / 18043)])"
    and b2: "notebook_bubble_point [double_of 0.2, double_of 0.8] 101325
      = Inr (356.31, [double_of (8434 / 18043), double_of (9609 / 18043)])"
    by (simp_all add: notebook_bubble_point_def)
  have c1: "snd (vle_call notebook_bubble_point failing_point 101325
      (x_spec [double_of 0.8, double_of 0.2]) notebook_vle)
      = Inr (Finite False (8125303120789867 / 9007199254740992))"
    using composition_call_split [OF n zs,
        where spec = "x_spec [double_of 0.8, double_of 0.2]" and ?x0.0 = "double_of 0.8"
        and xs = "[double_of 0.2]" and solve_Ty = notebook_bubble_point and P_spec = 101325
        and T' = "356.31" and ?y0.0 = "double_of (8434 / 18043)"
        and ys = "[double_of (9609 / 18043)]" and solve_Tx = failing_point,
        OF _ refl refl] b1
    unfolding split_recorded by (simp add: valof_def)
  have c2: "snd (vle_call notebook_bubble_point failing_point 101325
      (x_spec [double_of 0.2, double_of 0.8]) notebook_vle) = Inl InfeasibleRegion"
    using composition_call_split [OF n zs,
        where spec = "x_spec [double_of 0.2, double_of 0.8]" and ?x0.0 = "double_of 0.2"
        and xs = "[double_of 0.8]" and solve_Ty = notebook_bubble_point and P_spec = 101325
        and T' = "356.31" and ?y0.0 = "double_of (8434 / 18043)"
        and ys = "[double_of (9609 / 18043)]" and solve_Tx = failing_point,
        OF _ refl refl] b2
    unfolding split_infeasible by (simp add: valof_def)
  have n3: "N (notebook_vle\<lparr>z := [double_of 0.499998, double_of 0.500002]\<rparr>) = 2"
    and z3: "z (notebook_vle\<lparr>z := [double_of 0.499998, double_of 0.500002]\<rparr>)
      = double_of 0.499998 # [double_of 0.500002]"
    by (simp_all add: notebook_vle_def)
  have b3: "answering [double_of 0.5, double_of 0.5] [double_of 0.75, double_of 0.25] 101325
      = Inr (350, [double_of 0.5, double_of 0.5])"
    and b4: "answering [double_of 0.5, double_of 0.5] [double_of 0.25, double_of 0.75] 101325
      = Inr (350, [double_of 0.5, double_of 0.5])"
    by (simp_all add: answering_def)
  have c3: "snd (vle_call (answering [double_of 0.5, double_of 0.5]) failing_point 101325
      (x_spec [double_of 0.75, double_of 0.25])
      (notebook_vle\<lparr>z := [double_of 0.499998, double_of 0.500002]\<rparr>)) = Inr (Finite False 1)"
    using composition_call_split [OF n3 z3,
        where spec = "x_spec [double_of 0.75, double_of 0.25]" and ?x0.0 = "double_of 0.75"
        and xs = "[double_of 0.25]" and solve_Ty = "answering [double_of 0.5, double_of 0.5]"
        and P_spec = 101325 and T' = 350 and ?y0.0 = "double_of 0.5"
        and ys = "[double_of 0.5]" and solve_Tx = failing_point, OF _ refl refl] b3
    unfolding split_above_one by (simp add: valof_def)
  have n4: "N (notebook_vle\<lparr>z := [double_of 0.249998, double_of 0.750002]\<rparr>) = 2"
    and z4: "z (notebook_vle\<lparr>z := [double_of 0.249998, double_of 0.750002]\<rparr>)
      = double_of 0.249998 # [double_of 0.750002]"
    by (simp_all add: notebook_vle_def)
  have c4: "snd (vle_call (answering [double_of 0.5, double_of 0.5]) failing_point 101325
      (x_spec [double_of 0.25, double_of 0.75])
      (notebook_vle\<lparr>z := [double_of 0.249998, double_of 0.750002]\<rparr>)) = Inr (Finite False 0)"
    using composition_call_split [OF n4 z4,
        where spec = "x_spec [double_of 0.25, double_of 0.75]" and ?x0.0 = "double_of 0.25"
        and xs = "[double_of 0.75]" and solve_Ty = "answering [double_of 0.5, double_of 0.5]"
        and P_spec = 101325 and T' = 350 and ?y0.0 = "double_of 0.5"
        and ys = "[double_of 0.5]" and solve_Tx = failing_point, OF _ refl refl] b4
    unfolding split_below_zero by (simp add: valof_def)
  have b5: "notebook_dew_point [double_of (8434 / 18043), double_of (9609 / 18043)] 101325
      = Inr (356.31, [double_of 0.8, double_of 0.2])"
    by (simp add: notebook_dew_point_def)
  have c5: "snd (vle_call failing_point notebook_dew_point 101325
      (y_spec [double_of (8434 / 18043), double_of (9609 / 18043)]) notebook_vle)
      = Inr (Finite False (8125303120789867 / 9007199254740992))"
    using composition_call_split [OF n zs,
        where spec = "y_spec [double_of (8434 / 18043), double_of (9609 / 18043)]"
        and ?x0.0 = "double_of 0.8" and xs = "[double_of 0.2]" and solve_Ty = failing_point
        and P_spec = 101325 and T' = "356.31" and ?y0.0 = "double_of (8434 / 18043)"
        and ys = "[double_of (9609 / 18043)]" and solve_Tx = notebook_dew_point,
        OF _ refl refl] b5
    unfolding split_recorded by (simp add: valof_def)
  from n zs b1 c1 c2 c3 c4 c5 show ?thesis by simp
qed

text \<open>
  Claim C2 as the spec words it puts the whole closed interval \<open>[-\<epsilon>, 1 + \<epsilon>]\<close>, with
  \<open>\<epsilon> = 0.00001\<close>, on the side that does not fail. Take the overall composition
  \<open>[362145 / 2^20, 686431 / 2^20]\<close>, the liquid \<open>[1 / 4, 3 / 4]\<close> and the vapor
  \<open>[11317 / 32768, 21451 / 32768]\<close>, all doubles. The two differences of the lever rule are
  exact and their quotient is exactly \<open>1.00001 = 1 + \<epsilon>\<close>, which is not outside the
  interval and is within the margin of 1; the computed split is the double of the literal
  \<^verbatim>\<open>1.00001\<close>, and the call raises \<^verbatim>\<open>InfeasibleRegion\<close> instead of clamping to 1.
\<close>

theorem composition_call_margin_end_counterexample:
  "((362145 / 1048576 :: rat) - 1 / 4) / (11317 / 32768 - 1 / 4) = 1 + 0.00001
   \<and> snd (vle_call (answering [Finite False (11317 / 32768), Finite False (21451 / 32768)])
        failing_point 101325 (x_spec [Finite False (1 / 4), Finite False (3 / 4)])
        (notebook_vle\<lparr>z := [Finite False (362145 / 1048576), Finite False (686431 / 1048576)]\<rparr>))
      = Inl InfeasibleRegion
   \<and> snd (vle_call (answering [Finite False (11317 / 32768), Finite False (21451 / 32768)])
        failing_point 101325 (x_spec [Finite False (1 / 4), Finite False (3 / 4)])
        (notebook_vle\<lparr>z := [Finite False (362145 / 1048576), Finite False (686431 / 1048576)]\<rparr>))
      \<noteq> Inr (Finite False 1)"
proof -
  have "lever_rule [Finite False (362145 / 1048576), Finite False (686431 / 1048576)]
      [Finite False (1 / 4), Finite False (3 / 4)]
      [Finite False (11317 / 32768), Finite False (21451 / 32768)] = Inl InfeasibleRegion"
    unfolding lever_rule_cases split_at_end by (simp add: valof_def)
  then show ?thesis
    by (simp add: vle_call_def set_Px_def answering_def notebook_vle_def Let_def)
qed

subsection \<open>Calls next to the end of the margin\<close>

text \<open>
  Rounding decides the outcome next to the end of the margin. The first call has an
  exact quotient below \<open>1.00001\<close> and raises, because the quotient rounds up to the double
  of the literal; the second has an exact quotient above \<open>1.00001\<close> and returns 1,
  because its rounded differences give a quotient that rounds to the double below.
\<close>

lemma call_rounded_up_raises:
  "snd (vle_call (answering [double_of 0.625, double_of 0.375]) failing_point 101325
        (x_spec [double_of 0, double_of 1])
        (notebook_vle\<lparr>z := [double_of 0.62500625, double_of 0.37499375]\<rparr>))
      = Inl InfeasibleRegion"
proof -
  have "lever_rule [double_of 0.62500625, double_of 0.37499375] [double_of 0, double_of 1]
      [double_of 0.625, double_of 0.375] = Inl InfeasibleRegion"
    unfolding lever_rule_cases split_rounded_up by (simp add: valof_def)
  then show ?thesis
    by (simp add: vle_call_def set_Px_def answering_def notebook_vle_def Let_def)
qed

lemma call_rounded_down_clamps:
  "snd (vle_call (answering [double_of 0.4, double_of 0.6]) failing_point 101325
        (x_spec [double_of 0.1, double_of 0.9])
        (notebook_vle\<lparr>z := [Finite False (7205813446988323 / 18014398509481984),
                              Finite False (2702146265623415 / 4503599627370496)]\<rparr>))
      = Inr (Finite False 1)"
proof -
  have "lever_rule [Finite False (7205813446988323 / 18014398509481984),
                    Finite False (2702146265623415 / 4503599627370496)]
      [double_of 0.1, double_of 0.9] [double_of 0.4, double_of 0.6] = Inr (Finite False 1)"
    unfolding lever_rule_cases split_rounded_down by (simp add: valof_def)
  then show ?thesis
    by (simp add: vle_call_def set_Px_def answering_def notebook_vle_def Let_def)
qed

section \<open>The thermal condition after a composition call\<close>

text \<open>
  Claim C5 says that after a successful call with \<open>x\<close> and \<open>P\<close> the thermal condition
  holds the pressure that was passed. The recorded lines of \<^verbatim>\<open>set_Px\<close> pass \<open>P\<close> to
  the bubble-point solver and assign only the temperature. At the notebook's call
  \<^verbatim>\<open>vle(x=np.array([0.8, 0.2]), P=101325)\<close>, made on the solver left by
  \<^verbatim>\<open>vle(V=0.5, T=360)\<close>, the state after the call has the temperature of the bubble
  point and still the pressure 127822 of the call before, which is what the notebook
  prints: \<^verbatim>\<open>ThermalCondition(T=356.31, P=127822)\<close>.
\<close>

theorem set_Px_keeps_previous_pressure:
  "fst (vle_call notebook_bubble_point failing_point 101325
          (x_spec [double_of 0.8, double_of 0.2]) notebook_vle)
     = \<lparr>thermal_condition = \<lparr>T = 356.31, P = 127822\<rparr>, N = 2,
          z = [double_of 0.5, double_of 0.5]\<rparr>
   \<and> snd (vle_call notebook_bubble_point failing_point 101325
          (x_spec [double_of 0.8, double_of 0.2]) notebook_vle)
     = Inr (Finite False (8125303120789867 / 9007199254740992))
   \<and> P (thermal_condition
        (fst (vle_call notebook_bubble_point failing_point 101325
           (x_spec [double_of 0.8, double_of 0.2]) notebook_vle))) \<noteq> 101325"
proof -
  have "lever_rule [double_of 0.5, double_of 0.5] [double_of 0.8, double_of 0.2]
      [double_of (8434 / 18043), double_of (9609 / 18043)]
      = Inr (Finite False (8125303120789867 / 9007199254740992))"
    unfolding lever_rule_cases split_recorded by (simp add: valof_def)
  then show ?thesis
    by (simp add: vle_call_def set_Px_def notebook_bubble_point_def notebook_vle_def Let_def)
qed

section \<open>Termination of the recycle convergence engine\<close>

lemma largest_None: "largest es = None \<longleftrightarrow> es = []"
  by (cases es) (auto split: option.splits)

text \<open>The error that \<open>largest\<close> returns is one of the errors and no error is larger.\<close>

lemma largest_Some:
  "largest es = Some m \<Longrightarrow> m \<in> set es \<and> (\<forall>e \<in> set es. fst e \<le> fst m)"
  by (induction es arbitrary: m) (fastforce split: option.splits if_splits simp: largest_None)+

text \<open>All errors are below a tolerance exactly when the largest one is.\<close>

lemma all_below_iff_largest:
  "list_all (\<lambda>e. fst e < t) es \<longleftrightarrow> (case largest es of None \<Rightarrow> True | Some m \<Rightarrow> fst m < t)"
  using largest_Some[of es] largest_None[of es]
  by (fastforce simp: list_all_iff split: option.splits)

lemma funpow_last_pass: "0 < m \<Longrightarrow> run ((run ^^ (m - Suc 0)) guess) = (run ^^ m) guess"
  by (cases m) simp_all

text \<open>
  The loop, entered after \<open>n\<close> passes none of which met the test, ends either at the
  first later pass that meets it or, with the whole budget used, after \<open>n + budget\<close>
  passes none of which met it.
\<close>

lemma iterate_result:
  assumes "cur = (run ^^ n) guess"
    and "\<forall>k<n. \<not> pass_within run rd tol guess k"
    and "prev = (if n = 0 then None else Some ((run ^^ (n - 1)) guess, (run ^^ n) guess))"
  shows "case iterate run rd tol budget n prev cur of
       Converged m old new \<Rightarrow>
         n < m \<and> m \<le> n + budget \<and> old = (run ^^ (m - 1)) guess \<and> new = (run ^^ m) guess
         \<and> pass_within run rd tol guess (m - 1) \<and> (\<forall>k<m - 1. \<not> pass_within run rd tol guess k)
     | Exceeded m l \<Rightarrow>
         m = n + budget \<and> (\<forall>k<m. \<not> pass_within run rd tol guess k)
         \<and> l = (if m = 0 then None else Some ((run ^^ (m - 1)) guess, (run ^^ m) guess))"
  using assms
proof (induction budget arbitrary: n prev cur)
  case 0
  then show ?case by simp
next
  case (Suc budget)
  let ?new = "run cur"
  show ?case
  proof (cases "within_tolerance rd tol cur ?new")
    case True
    with Suc.prems show ?thesis
      by (simp add: pass_within_def)
  next
    case False
    have new: "?new = (run ^^ Suc n) guess" using Suc.prems(1) by simp
    have nw: "\<forall>k<Suc n. \<not> pass_within run rd tol guess k"
      using Suc.prems(1,2) False by (auto simp: pass_within_def less_Suc_eq)
    have l: "Some (cur, ?new) = (if Suc n = 0 then None
        else Some ((run ^^ (Suc n - 1)) guess, (run ^^ Suc n) guess))"
      using Suc.prems(1) by simp
    from Suc.IH[OF new nw l] False show ?thesis
      by (auto simp add: Let_def split: loop_end.splits)
  qed
qed

text \<open>
  Claim C3. Every run of the engine, for any pass function, tolerances, maximum pass
  count and guess, returns, and in one of two ways. Success: the loop count is between 1
  and the maximum, the tear streams returned are those after that many passes, all
  errors of that last pass are below tolerance while every earlier pass had an error
  that was not, and the report holds the largest flow-rate error and the largest
  temperature error of the last pass. Failure: the diagnostic names the loop and holds
  the maximum pass count, no pass within it met the tolerances, and the diagnostic holds
  the largest residuals of the last pass, the flow residual with its component; no tear
  streams are returned as a result.
\<close>

theorem simulate_outcome:
  "case simulate loop_id run rd tol maxiter guess of
     Inr (final, r) \<Rightarrow>
        0 < loops r \<and> loops r \<le> maxiter
      \<and> final = (run ^^ loops r) guess
      \<and> within_tolerance rd tol ((run ^^ (loops r - 1)) guess) final
      \<and> (\<forall>k < loops r - 1. \<not> within_tolerance rd tol ((run ^^ k) guess) ((run ^^ Suc k) guess))
      \<and> flow_error r = largest (flow_errors rd ((run ^^ (loops r - 1)) guess) final)
      \<and> temperature_error r = largest (temperature_errors ((run ^^ (loops r - 1)) guess) final)
   | Inl d \<Rightarrow>
        loop d = loop_id \<and> passes d = maxiter
      \<and> (\<forall>k < maxiter. \<not> within_tolerance rd tol ((run ^^ k) guess) ((run ^^ Suc k) guess))
      \<and> (0 < maxiter \<longrightarrow>
            flow_residual d
              = largest (flow_errors rd ((run ^^ (maxiter - 1)) guess) ((run ^^ maxiter) guess))
          \<and> temperature_residual d
              = largest (temperature_errors ((run ^^ (maxiter - 1)) guess) ((run ^^ maxiter) guess)))"
proof -
  have "case iterate run rd tol maxiter 0 None guess of
       Converged m old new \<Rightarrow>
         0 < m \<and> m \<le> 0 + maxiter \<and> old = (run ^^ (m - 1)) guess \<and> new = (run ^^ m) guess
         \<and> pass_within run rd tol guess (m - 1) \<and> (\<forall>k<m - 1. \<not> pass_within run rd tol guess k)
     | Exceeded m l \<Rightarrow>
         m = 0 + maxiter \<and> (\<forall>k<m. \<not> pass_within run rd tol guess k)
         \<and> l = (if m = 0 then None else Some ((run ^^ (m - 1)) guess, (run ^^ m) guess))"
    by (rule iterate_result) simp_all
  then show ?thesis
    by (cases "iterate run rd tol maxiter 0 None guess")
      (auto simp add: simulate_def pass_within_def funpow_last_pass)
qed

text \<open>
  The theorem on the example run. With a maximum of 5 passes the run converges after 3
  loops, the third pass being the first within tolerance; with a maximum of 2 passes it
  fails, and the diagnostic holds the residual of the second pass.
\<close>

lemmas example_defs = simulate_def within_tolerance_def flow_errors_def component_errors_def
  temperature_errors_def symmetric_relative_difference_def example_pass_def
  example_tolerances_def example_guess_def Let_def

theorem simulate_outcome_witness:
  "simulate ''S1-0'' example_pass symmetric_relative_difference example_tolerances 5 example_guess
     = Inr ([\<lparr>flow = [9.99, 5], temperature = 350\<rparr>],
            \<lparr>loops = 3, flow_error = Some (1 / 111, 0), temperature_error = Some (0, 0)\<rparr>)
   \<and> (example_pass ^^ 3) example_guess = [\<lparr>flow = [9.99, 5], temperature = 350\<rparr>]
   \<and> within_tolerance symmetric_relative_difference example_tolerances
        ((example_pass ^^ 2) example_guess) ((example_pass ^^ 3) example_guess)
   \<and> \<not> within_tolerance symmetric_relative_difference example_tolerances
        ((example_pass ^^ 1) example_guess) ((example_pass ^^ 2) example_guess)
   \<and> simulate ''S1-0'' example_pass symmetric_relative_difference example_tolerances 2 example_guess
     = Inl \<lparr>loop = ''S1-0'', passes = 2, flow_residual = Some (1 / 11, 0),
            temperature_residual = Some (0, 0)\<rparr>"
proof -
  have s5: "simulate ''S1-0'' example_pass symmetric_relative_difference example_tolerances 5
       example_guess
     = Inr ([\<lparr>flow = [9.99, 5], temperature = 350\<rparr>],
            \<lparr>loops = 3, flow_error = Some (1 / 111, 0), temperature_error = Some (0, 0)\<rparr>)"
    by (simp add: example_defs eval_nat_numeral)
  have s2: "simulate ''S1-0'' example_pass symmetric_relative_difference example_tolerances 2
       example_guess
     = Inl \<lparr>loop = ''S1-0'', passes = 2, flow_residual = Some (1 / 11, 0),
            temperature_residual = Some (0, 0)\<rparr>"
    by (simp add: example_defs eval_nat_numeral)
  have c5: "(example_pass ^^ 3) example_guess = [\<lparr>flow = [9.99, 5], temperature = 350\<rparr>]
     \<and> within_tolerance symmetric_relative_difference example_tolerances
        ((example_pass ^^ 2) example_guess) ((example_pass ^^ 3) example_guess)"
    using simulate_outcome [where loop_id = "''S1-0''" and run = example_pass
        and rd = symmetric_relative_difference and tol = example_tolerances and maxiter = 5
        and guess = example_guess]
    unfolding s5 by auto
  have c2: "\<not> within_tolerance symmetric_relative_difference example_tolerances
        ((example_pass ^^ 1) example_guess) ((example_pass ^^ 2) example_guess)"
    using simulate_outcome [where loop_id = "''S1-0''" and run = example_pass
        and rd = symmetric_relative_difference and tol = example_tolerances and maxiter = 2
        and guess = example_guess]
    unfolding s2 by (auto simp add: eval_nat_numeral less_Suc_eq)
  from s5 s2 c5 c2 show ?thesis by blast
qed

end
